theory Spec2Isabelle
  imports Complex_Main
begin

section \<open>Common data: rectangles and the window\<close>

text \<open>
  JavaScript numbers are modelled as reals (no rounding, no NaN): every claim below is
  about additions, subtractions, comparisons and halving of pixel measurements.
  A \<open>DOMRect\<close> is what \<open>getBoundingClientRect()\<close> returns; \<open>right\<close> and
  \<open>bottom\<close> are derived from the stored fields.
\<close>

record DOMRect =
  rtop :: real
  rleft :: real
  rwidth :: real
  rheight :: real

definition rright :: "DOMRect \<Rightarrow> real" where
  "rright r = rleft r + rwidth r"

definition rbottom :: "DOMRect \<Rightarrow> real" where
  "rbottom r = rtop r + rheight r"

record Window =
  innerWidth :: real
  innerHeight :: real
  scrollX :: real
  scrollY :: real

section \<open>Popper (src/components/Popper/index.tsx)\<close>

text \<open>
  A modifier \<open>{name, options?}\<close>; \<open>mboundary\<close> is \<open>options?.boundary\<close>
  (\<open>None\<close> when \<open>options\<close> or the key is absent).
\<close>

record PopperModifier =
  mname :: string
  mboundary :: "string option"

text \<open>
  The state cell \<open>popperStyles\<close>. The pixel strings \<open>`${top}px`\<close> are kept as
  numbers; \<open>ps_width\<close> is \<open>None\<close> for \<open>'auto'\<close>.
\<close>

record PopperStyles =
  ps_position :: string
  ps_top :: real
  ps_left :: real
  ps_transform :: string
  ps_width :: "real option"

definition initialPopperStyles :: PopperStyles where
  "initialPopperStyles =
     \<lparr>ps_position = ''absolute'', ps_top = 0, ps_left = 0,
      ps_transform = ''translate3d(0, 0, 0)'', ps_width = None\<rparr>"

text \<open>
  The \<open>switch (placement)\<close> of \<open>updatePosition\<close>. At run time a placement is a string,
  so the \<open>default\<close> branch is reachable; the result is the pair \<open>(top, left)\<close>.
  The offset is destructured as \<open>[offsetX, offsetY]\<close>.
\<close>

definition placementPosition ::
  "string \<Rightarrow> DOMRect \<Rightarrow> DOMRect \<Rightarrow> real \<times> real \<Rightarrow> real \<times> real" where
  "placementPosition placement refRect popperRect offset =
     (let offsetX = fst offset; offsetY = snd offset in
      if placement = ''top'' then
        (rtop refRect - rheight popperRect - offsetY,
         rleft refRect + (rwidth refRect - rwidth popperRect) / 2 + offsetX)
      else if placement = ''top-start'' then
        (rtop refRect - rheight popperRect - offsetY,
         rleft refRect + offsetX)
      else if placement = ''top-end'' then
        (rtop refRect - rheight popperRect - offsetY,
         rright refRect - rwidth popperRect + offsetX)
      else if placement = ''bottom'' then
        (rbottom refRect + offsetY,
         rleft refRect + (rwidth refRect - rwidth popperRect) / 2 + offsetX)
      else if placement = ''bottom-start'' then
        (rbottom refRect + offsetY,
         rleft refRect + offsetX)
      else if placement = ''bottom-end'' then
        (rbottom refRect + offsetY,
         rright refRect - rwidth popperRect + offsetX)
      else if placement = ''left'' then
        (rtop refRect + (rheight refRect - rheight popperRect) / 2 + offsetY,
         rleft refRect - rwidth popperRect - offsetX)
      else if placement = ''left-start'' then
        (rtop refRect + offsetY,
         rleft refRect - rwidth popperRect - offsetX)
      else if placement = ''left-end'' then
        (rbottom refRect - rheight popperRect + offsetY,
         rleft refRect - rwidth popperRect - offsetX)
      else if placement = ''right'' then
        (rtop refRect + (rheight refRect - rheight popperRect) / 2 + offsetY,
         rright refRect + offsetX)
      else if placement = ''right-start'' then
        (rtop refRect + offsetY,
         rright refRect + offsetX)
      else if placement = ''right-end'' then
        (rbottom refRect - rheight popperRect + offsetY,
         rright refRect + offsetX)
      else
        (rbottom refRect + offsetY,
         rleft refRect + offsetX))"

text \<open>
  The body of the \<open>preventOverflow\<close> branch: four sequential \<open>if\<close> statements on the
  mutable \<open>left\<close> and \<open>top\<close>, with the literal clearance 8.
\<close>

definition preventOverflow :: "Window \<Rightarrow> DOMRect \<Rightarrow> real \<times> real \<Rightarrow> real \<times> real" where
  "preventOverflow w popperRect pos =
     (let top0 = fst pos; left0 = snd pos;
          viewportWidth = innerWidth w;
          viewportHeight = innerHeight w;
          left1 = (if left0 + rwidth popperRect > viewportWidth
                   then viewportWidth - rwidth popperRect - 8 else left0);
          left2 = (if left1 < 8 then 8 else left1);
          top1 = (if top0 + rheight popperRect > viewportHeight
                  then viewportHeight - rheight popperRect - 8 else top0);
          top2 = (if top1 < 8 then 8 else top1)
      in (top2, left2))"

definition isPreventOverflow :: "PopperModifier \<Rightarrow> bool" where
  "isPreventOverflow m \<longleftrightarrow> mname m = ''preventOverflow'' \<and> mboundary m = Some ''viewport''"

text \<open>\<open>modifiers.forEach\<close>: every matching modifier runs the branch once, in order.\<close>

fun applyModifiers ::
  "PopperModifier list \<Rightarrow> Window \<Rightarrow> DOMRect \<Rightarrow> real \<times> real \<Rightarrow> real \<times> real" where
  "applyModifiers [] w popperRect pos = pos"
| "applyModifiers (m # ms) w popperRect pos =
     applyModifiers ms w popperRect
       (if isPreventOverflow m then preventOverflow w popperRect pos else pos)"

text \<open>
  \<open>updatePosition\<close>. The two elements are \<open>None\<close> when the element is \<open>null\<close>, and
  otherwise carry the rectangle their \<open>getBoundingClientRect()\<close> returns. The result is
  the argument of \<open>setPopperStyles\<close>, or \<open>None\<close> on the early \<open>return\<close>.
\<close>

definition updatePosition ::
  "DOMRect option \<Rightarrow> DOMRect option \<Rightarrow> string \<Rightarrow> real \<times> real \<Rightarrow> PopperModifier list
     \<Rightarrow> bool \<Rightarrow> Window \<Rightarrow> PopperStyles option" where
  "updatePosition referenceElement popperElement placement offset modifiers matchWidth w =
     (case referenceElement of
        None \<Rightarrow> None
      | Some refRect \<Rightarrow>
          (case popperElement of
             None \<Rightarrow> None
           | Some popperRect \<Rightarrow>
               (let pos = applyModifiers modifiers w popperRect
                           (placementPosition placement refRect popperRect offset);
                    top' = fst pos + scrollY w;
                    left' = snd pos + scrollX w
                in Some \<lparr>ps_position = ''absolute'', ps_top = top', ps_left = left',
                         ps_transform = ''translate3d(0, 0, 0)'',
                         ps_width = (if matchWidth then Some (rwidth refRect) else None)\<rparr>)))"

text \<open>The props the component reads (children are kept as an opaque string).\<close>

record PopperProps =
  referenceElement :: "DOMRect option"
  children :: string
  isOpen :: bool
  placement :: string
  modifiers :: "PopperModifier list"
  usePortal :: bool
  zIndex :: int
  className :: string
  offset :: "real \<times> real"
  matchWidth :: bool

text \<open>
  The positioning effect: it returns at once unless the reference element, the popper
  element and \<open>isOpen\<close> are all present, and otherwise stores the computed styles.
\<close>

definition positionEffect ::
  "PopperProps \<Rightarrow> DOMRect option \<Rightarrow> Window \<Rightarrow> PopperStyles \<Rightarrow> PopperStyles" where
  "positionEffect p popperElement w st =
     (if referenceElement p = None \<or> popperElement = None \<or> \<not> isOpen p then st
      else (case updatePosition (referenceElement p) popperElement (placement p) (offset p)
                   (modifiers p) (matchWidth p) w of
              None \<Rightarrow> st
            | Some st' \<Rightarrow> st'))"

text \<open>
  The rendered element. The \<open>style\<close> attribute is commented out in the source, so the
  \<open>div\<close> carries a class name, \<open>data-placement\<close> and the children only; \<open>div_style\<close>
  is the inline style the element receives (\<open>None\<close>: no \<open>style\<close> attribute).
  \<open>styles_popper\<close> is the class name the CSS module exports.
\<close>

record RenderedDiv =
  div_className :: string
  div_style :: "(PopperStyles \<times> int) option"
  div_dataPlacement :: string
  div_children :: string

datatype Rendered = RenderNull | RenderPortal RenderedDiv | RenderInPlace RenderedDiv

definition popperContent :: "string \<Rightarrow> PopperProps \<Rightarrow> PopperStyles \<Rightarrow> RenderedDiv option" where
  "popperContent styles_popper p popperStyles =
     (if isOpen p then
        Some \<lparr>div_className = styles_popper @ '' '' @ className p,
              div_style = None,
              div_dataPlacement = placement p,
              div_children = children p\<rparr>
      else None)"

definition renderPopper :: "string \<Rightarrow> PopperProps \<Rightarrow> PopperStyles \<Rightarrow> Rendered" where
  "renderPopper styles_popper p popperStyles =
     (if \<not> isOpen p then RenderNull
      else (case popperContent styles_popper p popperStyles of
              None \<Rightarrow> RenderNull
            | Some d \<Rightarrow> if usePortal p then RenderPortal d else RenderInPlace d))"

text \<open>The placement the rendered element reports (its \<open>data-placement\<close>).\<close>

definition placementUsed :: "Rendered \<Rightarrow> string option" where
  "placementUsed r =
     (case r of RenderNull \<Rightarrow> None
      | RenderPortal d \<Rightarrow> Some (div_dataPlacement d)
      | RenderInPlace d \<Rightarrow> Some (div_dataPlacement d))"

section \<open>Popover (src/components/Drawer/index.tsx)\<close>

text \<open>
  The props the handlers and effects read. \<open>externalIsOpen\<close> is the optional
  \<open>isOpen\<close> prop; \<open>hasOnOpen\<close> and \<open>hasOnClose\<close> say whether the optional
  callbacks were supplied (\<open>onOpen?.()\<close> does nothing otherwise).
\<close>

record PopoverProps =
  externalIsOpen :: "bool option"
  hasOnOpen :: bool
  hasOnClose :: bool
  position :: string
  closeOnClickOutside :: bool
  closeOnEsc :: bool
  closeOnScroll :: bool
  hasArrow :: bool
  popoverOffset :: real
  controlled :: bool

text \<open>
  The component's only state cell is the boolean \<open>internalIsOpen\<close>; the two counters
  log how often the caller's callbacks have been invoked.
\<close>

record PopoverState =
  internalIsOpen :: bool
  onOpenCalls :: nat
  onCloseCalls :: nat

definition popoverIsOpen :: "PopoverProps \<Rightarrow> PopoverState \<Rightarrow> bool" where
  "popoverIsOpen p s = (if controlled p then externalIsOpen p = Some True else internalIsOpen s)"

definition callOnOpen :: "PopoverProps \<Rightarrow> PopoverState \<Rightarrow> PopoverState" where
  "callOnOpen p s = (if hasOnOpen p then s\<lparr>onOpenCalls := Suc (onOpenCalls s)\<rparr> else s)"

definition callOnClose :: "PopoverProps \<Rightarrow> PopoverState \<Rightarrow> PopoverState" where
  "callOnClose p s = (if hasOnClose p then s\<lparr>onCloseCalls := Suc (onCloseCalls s)\<rparr> else s)"

definition handleToggle :: "PopoverProps \<Rightarrow> PopoverState \<Rightarrow> PopoverState" where
  "handleToggle p s =
     (if controlled p then
        (if popoverIsOpen p s then callOnClose p s else callOnOpen p s)
      else
        (let s' = s\<lparr>internalIsOpen := \<not> internalIsOpen s\<rparr> in
         if \<not> internalIsOpen s then callOnOpen p s' else callOnClose p s'))"

definition handleClose :: "PopoverProps \<Rightarrow> PopoverState \<Rightarrow> PopoverState" where
  "handleClose p s =
     (if controlled p then callOnClose p s
      else callOnClose p (s\<lparr>internalIsOpen := False\<rparr>))"

text \<open>The \<open>switch (position)\<close> of the Popover's \<open>updatePosition\<close>.\<close>

definition popoverPosition ::
  "string \<Rightarrow> DOMRect \<Rightarrow> DOMRect \<Rightarrow> real \<Rightarrow> real \<times> real" where
  "popoverPosition pos triggerRect contentRect off =
     (if pos = ''top'' then
        (rtop triggerRect - rheight contentRect - off,
         rleft triggerRect + (rwidth triggerRect / 2) - (rwidth contentRect / 2))
      else if pos = ''top-start'' then
        (rtop triggerRect - rheight contentRect - off, rleft triggerRect)
      else if pos = ''top-end'' then
        (rtop triggerRect - rheight contentRect - off, rright triggerRect - rwidth contentRect)
      else if pos = ''right'' then
        (rtop triggerRect + (rheight triggerRect / 2) - (rheight contentRect / 2),
         rright triggerRect + off)
      else if pos = ''right-start'' then
        (rtop triggerRect, rright triggerRect + off)
      else if pos = ''right-end'' then
        (rbottom triggerRect - rheight contentRect, rright triggerRect + off)
      else if pos = ''bottom'' then
        (rbottom triggerRect + off,
         rleft triggerRect + (rwidth triggerRect / 2) - (rwidth contentRect / 2))
      else if pos = ''bottom-start'' then
        (rbottom triggerRect + off, rleft triggerRect)
      else if pos = ''bottom-end'' then
        (rbottom triggerRect + off, rright triggerRect - rwidth contentRect)
      else if pos = ''left'' then
        (rtop triggerRect + (rheight triggerRect / 2) - (rheight contentRect / 2),
         rleft triggerRect - rwidth contentRect - off)
      else if pos = ''left-start'' then
        (rtop triggerRect, rleft triggerRect - rwidth contentRect - off)
      else if pos = ''left-end'' then
        (rbottom triggerRect - rheight contentRect, rleft triggerRect - rwidth contentRect - off)
      else
        (rbottom triggerRect + off,
         rleft triggerRect + (rwidth triggerRect / 2) - (rwidth contentRect / 2)))"

text \<open>"Ensure the popover stays within viewport": two \<open>if / else if\<close> chains.\<close>

definition keepInViewport :: "Window \<Rightarrow> DOMRect \<Rightarrow> real \<times> real \<Rightarrow> real \<times> real" where
  "keepInViewport w contentRect pos =
     (let top0 = fst pos; left0 = snd pos;
          viewportWidth = innerWidth w;
          viewportHeight = innerHeight w;
          left1 = (if left0 < 10 then 10
                   else if left0 + rwidth contentRect > viewportWidth - 10
                   then viewportWidth - rwidth contentRect - 10 else left0);
          top1 = (if top0 < 10 then 10
                  else if top0 + rheight contentRect > viewportHeight - 10
                  then viewportHeight - rheight contentRect - 10 else top0)
      in (top1, left1))"

text \<open>
  The Popover's \<open>updatePosition\<close>: \<open>None\<close> on the early \<open>return\<close>, otherwise the
  pair written to \<open>contentElement.style.top\<close> and \<open>.left\<close>.
\<close>

definition popoverUpdatePosition ::
  "PopoverProps \<Rightarrow> bool \<Rightarrow> DOMRect option \<Rightarrow> DOMRect option \<Rightarrow> Window
     \<Rightarrow> (real \<times> real) option" where
  "popoverUpdatePosition p opened triggerElement contentElement w =
     (case triggerElement of
        None \<Rightarrow> None
      | Some triggerRect \<Rightarrow>
          (case contentElement of
             None \<Rightarrow> None
           | Some contentRect \<Rightarrow>
               if \<not> opened then None
               else Some (keepInViewport w contentRect
                      (popoverPosition (position p) triggerRect contentRect (popoverOffset p)))))"

section \<open>Event listeners\<close>

text \<open>
  The listeners attached to \<open>window\<close> and \<open>document\<close>: target, event type and the
  identity of the handler function. As in the DOM, adding a listener that is already
  attached changes nothing, and removing one that is not attached changes nothing.
\<close>

datatype EventTarget = WindowTarget | DocumentTarget

type_synonym Listener = "EventTarget \<times> string \<times> nat"

definition addEventListener :: "Listener \<Rightarrow> Listener list \<Rightarrow> Listener list" where
  "addEventListener l ls = (if l \<in> set ls then ls else ls @ [l])"

definition removeEventListener :: "Listener \<Rightarrow> Listener list \<Rightarrow> Listener list" where
  "removeEventListener l ls = remove1 l ls"

text \<open>
  The four function objects one render of the Popover creates; the effect of that render
  and its cleanup close over the same four.
\<close>

record PopoverHandlers =
  h_updatePosition :: nat
  h_handleClose :: nat
  h_handleClickOutside :: nat
  h_handleEscKey :: nat

definition popoverEffect ::
  "PopoverProps \<Rightarrow> bool \<Rightarrow> PopoverHandlers \<Rightarrow> Listener list \<Rightarrow> Listener list" where
  "popoverEffect p opened hs ls =
     (if opened then
        (let ls1 = addEventListener (WindowTarget, ''resize'', h_updatePosition hs) ls;
             ls2 = (if closeOnScroll p
                    then addEventListener (WindowTarget, ''scroll'', h_handleClose hs) ls1
                    else ls1);
             ls3 = (if closeOnClickOutside p
                    then addEventListener (DocumentTarget, ''mousedown'', h_handleClickOutside hs) ls2
                    else ls2);
             ls4 = (if closeOnEsc p
                    then addEventListener (DocumentTarget, ''keydown'', h_handleEscKey hs) ls3
                    else ls3)
         in ls4)
      else ls)"

definition popoverCleanup :: "PopoverHandlers \<Rightarrow> Listener list \<Rightarrow> Listener list" where
  "popoverCleanup hs ls =
     removeEventListener (DocumentTarget, ''keydown'', h_handleEscKey hs)
       (removeEventListener (DocumentTarget, ''mousedown'', h_handleClickOutside hs)
          (removeEventListener (WindowTarget, ''scroll'', h_handleClose hs)
             (removeEventListener (WindowTarget, ''resize'', h_updatePosition hs) ls)))"

section \<open>ClickAwayListener\<close>

text \<open>
  The effect of the ClickAwayListener. The loop attaches \<open>handleClickAway\<close> for every
  event name; the \<open>registeredEvents.push\<close> in its body is commented out in the source,
  so the loop leaves \<open>registeredEvents\<close> as it was. The cleanup removes what
  \<open>registeredEvents\<close> lists.
\<close>

fun registerEvents ::
  "string list \<Rightarrow> nat \<Rightarrow> Listener list \<times> (string \<times> nat) list
     \<Rightarrow> Listener list \<times> (string \<times> nat) list" where
  "registerEvents [] handleClickAway (ls, registeredEvents) = (ls, registeredEvents)"
| "registerEvents (eventName # es) handleClickAway (ls, registeredEvents) =
     registerEvents es handleClickAway
       (addEventListener (DocumentTarget, eventName, handleClickAway) ls, registeredEvents)"

fun clickAwayCleanup :: "(string \<times> nat) list \<Rightarrow> Listener list \<Rightarrow> Listener list" where
  "clickAwayCleanup [] ls = ls"
| "clickAwayCleanup ((type, handler) # rs) ls =
     clickAwayCleanup rs (removeEventListener (DocumentTarget, type, handler) ls)"

text \<open>
  \<open>clickAwayEffect\<close> returns the listeners after the effect ran and the
  \<open>registeredEvents\<close> its cleanup closes over (\<open>None\<close>: the effect returned
  \<open>undefined\<close>, there is no cleanup).
\<close>

definition clickAwayEffect ::
  "bool \<Rightarrow> string list \<Rightarrow> nat \<Rightarrow> Listener list
     \<Rightarrow> Listener list \<times> (string \<times> nat) list option" where
  "clickAwayEffect disabled events handleClickAway ls =
     (if disabled then (ls, None)
      else (let r = registerEvents events handleClickAway (ls, [])
            in (fst r, Some (snd r))))"

definition clickAwayMountUnmount ::
  "bool \<Rightarrow> string list \<Rightarrow> nat \<Rightarrow> Listener list \<Rightarrow> Listener list" where
  "clickAwayMountUnmount disabled events handleClickAway ls =
     (case clickAwayEffect disabled events handleClickAway ls of
        (ls', None) \<Rightarrow> ls'
      | (ls', Some registeredEvents) \<Rightarrow> clickAwayCleanup registeredEvents ls')"

definition popoverOpenClose ::
  "PopoverProps \<Rightarrow> PopoverHandlers \<Rightarrow> Listener list \<Rightarrow> Listener list" where
  "popoverOpenClose p hs ls = popoverCleanup hs (popoverEffect p True hs ls)"

section \<open>Popover lifecycle\<close>

text \<open>
  The calls a user of one Popover instance can make: a click on the trigger
  (\<open>handleToggle\<close>), a dismissal (\<open>handleClose\<close>, reached from the scroll,
  outside-click and Escape listeners) and a reposition (\<open>updatePosition\<close>, which writes
  the content element's style and touches no state cell). The component has no separate
  \<open>open\<close> function. \<open>popoverStep\<close> runs one call on the state a render captured and
  gives the state the next render sees when that call is the only one in between.
\<close>

datatype ExternalCall = CallToggle | CallClose | CallReposition

definition popoverStep :: "PopoverProps \<Rightarrow> ExternalCall \<Rightarrow> PopoverState \<Rightarrow> PopoverState" where
  "popoverStep p c s =
     (case c of
        CallToggle \<Rightarrow> handleToggle p s
      | CallClose \<Rightarrow> handleClose p s
      | CallReposition \<Rightarrow> s)"

text \<open>
  A state update is not applied by the call that makes it: \<open>setInternalIsOpen\<close> queues
  its argument, and the next render commits the last queued value. Until that render every
  handler reads the \<open>internalIsOpen\<close> the latest render captured, however many calls
  are made. \<open>setStateCalls\<close> lists the arguments a call passes to
  \<open>setInternalIsOpen\<close>: \<open>!internalIsOpen\<close> in \<open>handleToggle\<close>, \<open>false\<close> in
  \<open>handleClose\<close>, none in the controlled branches and in \<open>updatePosition\<close>.
\<close>

definition setStateCalls :: "PopoverProps \<Rightarrow> ExternalCall \<Rightarrow> PopoverState \<Rightarrow> bool list" where
  "setStateCalls p c s =
     (case c of
        CallToggle \<Rightarrow> if controlled p then [] else [\<not> internalIsOpen s]
      | CallClose \<Rightarrow> if controlled p then [] else [False]
      | CallReposition \<Rightarrow> [])"

text \<open>
  One mounted Popover: \<open>rendered\<close> holds the \<open>internalIsOpen\<close> of the latest render
  and the callback counters as they stand; \<open>queued\<close> holds the updates queued since
  that render, oldest first.
\<close>

record PopoverInstance =
  rendered :: PopoverState
  queued :: "bool list"

text \<open>
  A call notifies the callbacks at once and queues its update; the flag the handlers read
  stays as rendered. A render commits the last queued value and empties the queue.
\<close>

definition instCall :: "PopoverProps \<Rightarrow> ExternalCall \<Rightarrow> PopoverInstance \<Rightarrow> PopoverInstance" where
  "instCall p c inst =
     \<lparr>rendered = (popoverStep p c (rendered inst))
                    \<lparr>internalIsOpen := internalIsOpen (rendered inst)\<rparr>,
      queued = queued inst @ setStateCalls p c (rendered inst)\<rparr>"

definition instRender :: "PopoverInstance \<Rightarrow> PopoverInstance" where
  "instRender inst =
     \<lparr>rendered = (rendered inst)
                    \<lparr>internalIsOpen := last (internalIsOpen (rendered inst) # queued inst)\<rparr>,
      queued = []\<rparr>"








section \<open>Modal: focus management\<close>

text \<open>
  A DOM element as far as the focus effect can tell elements apart: its identity and
  whether it has a \<open>focus\<close> property.
\<close>

record Element =
  el_id :: nat
  el_hasFocus :: bool

text \<open>
  What the focus effect reads and writes: \<open>document.activeElement\<close>, the identities of
  the elements attached to the document at the moment the effect runs, the two refs, the
  \<open>focus()\<close> calls issued so far, and whether \<open>document.body\<close> carries the class
  \<open>overflow-hidden\<close>.
\<close>

record ModalEnv =
  documentActiveElement :: "Element option"
  attached :: "nat list"
  previousActiveElement :: "Element option"
  modalRef :: "Element option"
  focusCalls :: "Element list"
  bodyOverflowHidden :: bool

text \<open>
  \<open>element.focus()\<close> as the browser performs it on the elements concerned (the element
  that held the focus before, and the panel with \<open>tabIndex -1\<close>): an attached element
  becomes \<open>document.activeElement\<close>; on an element that is no longer attached the call
  does nothing.
\<close>

definition callFocus :: "Element \<Rightarrow> ModalEnv \<Rightarrow> ModalEnv" where
  "callFocus e env =
     env\<lparr>focusCalls := focusCalls env @ [e],
         documentActiveElement :=
           (if el_id e \<in> set (attached env) then Some e else documentActiveElement env)\<rparr>"

text \<open>The effect with dependency \<open>[isOpen]\<close>: one run per change of \<open>isOpen\<close>.\<close>

definition focusEffect :: "bool \<Rightarrow> ModalEnv \<Rightarrow> ModalEnv" where
  "focusEffect opened env =
     (if opened then
        (let env1 = env\<lparr>previousActiveElement := documentActiveElement env\<rparr>;
             env2 = (case modalRef env1 of None \<Rightarrow> env1 | Some m \<Rightarrow> callFocus m env1)
         in env2\<lparr>bodyOverflowHidden := True\<rparr>)
      else
        (let env1 = (case previousActiveElement env of
                       None \<Rightarrow> env
                     | Some e \<Rightarrow> if el_hasFocus e then callFocus e env else env)
         in env1\<lparr>bodyOverflowHidden := False\<rparr>))"

section \<open>Slider\<close>

text \<open>
  A slider value is a number or a pair (\<open>number | [number, number]\<close>). \<open>sl_value\<close> is
  the optional controlled value; \<open>hasOnChange\<close> says whether \<open>onChange\<close> was supplied.
  The state is the cell \<open>internalValue\<close> and the log of the arguments \<open>onChange\<close> was
  called with.
\<close>

datatype SliderValue = Single real | RangePair real real

datatype Thumb = ThumbMin | ThumbMax

record SliderProps =
  sl_min :: real
  sl_max :: real
  sl_step :: real
  sl_value :: "SliderValue option"
  sl_disabled :: bool
  sl_range :: bool
  hasOnChange :: bool

record SliderState =
  internalValue :: SliderValue
  onChangeLog :: "SliderValue list"

definition isControlled :: "SliderProps \<Rightarrow> bool" where
  "isControlled p = (sl_value p \<noteq> None)"

text \<open>\<open>Math.round\<close> rounds to the nearest integer, halves upwards.\<close>

definition mathRound :: "real \<Rightarrow> real" where
  "mathRound x = of_int \<lfloor>x + 1 / 2\<rfloor>"

definition getValueFromPercentage :: "SliderProps \<Rightarrow> real \<Rightarrow> real" where
  "getValueFromPercentage p percentage =
     (let rawValue = sl_min p + (percentage / 100) * (sl_max p - sl_min p);
          steppedValue = mathRound (rawValue / sl_step p) * sl_step p
      in min (sl_max p) (max (sl_min p) steppedValue))"

text \<open>
  The two statements every committing branch of the source ends with:
  \<open>if (!isControlled) setInternalValue(v); onChange?.(v);\<close>
\<close>

definition commitValue :: "SliderProps \<Rightarrow> SliderValue \<Rightarrow> SliderState \<Rightarrow> SliderState" where
  "commitValue p v s =
     (let s1 = (if \<not> isControlled p then s\<lparr>internalValue := v\<rparr> else s)
      in if hasOnChange p then s1\<lparr>onChangeLog := onChangeLog s1 @ [v]\<rparr> else s1)"

text \<open>
  \<open>handleTrackClick\<close>. \<open>trackRef\<close> is the rectangle of the track element, \<open>None\<close>
  while the ref is empty. In the range branch the source computes \<open>updatedValue\<close> and
  stops: the two statements that would commit it are commented out.
\<close>

definition handleTrackClick ::
  "SliderProps \<Rightarrow> DOMRect option \<Rightarrow> real \<Rightarrow> SliderState \<Rightarrow> SliderState" where
  "handleTrackClick p trackRef clientX s =
     (case trackRef of
        None \<Rightarrow> s
      | Some rect \<Rightarrow>
          if sl_disabled p then s
          else
            (let percentage = ((clientX - rleft rect) / rwidth rect) * 100;
                 newValue = getValueFromPercentage p percentage
             in case (sl_range p, internalValue s) of
                  (True, RangePair minVal maxVal) \<Rightarrow>
                    (let minDistance = \<bar>newValue - minVal\<bar>;
                         maxDistance = \<bar>newValue - maxVal\<bar>;
                         updatedValue = (if minDistance \<le> maxDistance
                                         then RangePair newValue maxVal
                                         else RangePair minVal newValue)
                     in s)
                | _ \<Rightarrow> commitValue p (Single newValue) s))"

text \<open>\<open>handleDrag\<close>, the \<open>mousemove\<close> listener a thumb installs while it is dragged.\<close>

definition handleDrag ::
  "SliderProps \<Rightarrow> Thumb \<Rightarrow> DOMRect option \<Rightarrow> real \<Rightarrow> SliderState \<Rightarrow> SliderState" where
  "handleDrag p thumbType trackRef clientX s =
     (case trackRef of
        None \<Rightarrow> s
      | Some rect \<Rightarrow>
          (let percentage = max 0 (min 100 (((clientX - rleft rect) / rwidth rect) * 100));
               newValue = getValueFromPercentage p percentage
           in case (sl_range p, internalValue s) of
                (True, RangePair minVal maxVal) \<Rightarrow>
                  (let updatedValue = (if thumbType = ThumbMin
                                       then RangePair (min newValue maxVal) maxVal
                                       else RangePair minVal (max newValue minVal))
                   in commitValue p updatedValue s)
              | _ \<Rightarrow> commitValue p (Single newValue) s))"

section \<open>Predicates and inputs used by the theorems\<close>

text \<open>The twelve values of the type \<open>PopperPlacement\<close> (and of \<open>PopoverPosition\<close>).\<close>

definition validPlacements :: "string list" where
  "validPlacements =
     [''top'', ''top-start'', ''top-end'', ''bottom'', ''bottom-start'', ''bottom-end'',
      ''left'', ''left-start'', ''left-end'', ''right'', ''right-start'', ''right-end'']"

text \<open>
  Containment as the specification words it, for a viewport whose bounds are
  \<open>[0, innerWidth] \<times> [0, innerHeight]\<close>: the content fits within the padded bounds, and
  the content box placed at \<open>(top, left)\<close> lies within them.
\<close>

definition fitsWithin :: "real \<Rightarrow> Window \<Rightarrow> DOMRect \<Rightarrow> bool" where
  "fitsWithin padding w contentRect \<longleftrightarrow>
     rwidth contentRect \<le> innerWidth w - 2 * padding \<and>
     rheight contentRect \<le> innerHeight w - 2 * padding"

definition containedIn :: "real \<Rightarrow> Window \<Rightarrow> DOMRect \<Rightarrow> real \<times> real \<Rightarrow> bool" where
  "containedIn padding w contentRect pos \<longleftrightarrow>
     padding \<le> snd pos \<and> snd pos + rwidth contentRect \<le> innerWidth w - padding \<and>
     padding \<le> fst pos \<and> fst pos + rheight contentRect \<le> innerHeight w - padding"

text \<open>
  What the Popper's \<open>preventOverflow\<close> branch establishes: the leading edges keep a
  clearance of 8, the trailing edges stay inside the viewport.
\<close>

definition popperContained :: "Window \<Rightarrow> DOMRect \<Rightarrow> real \<times> real \<Rightarrow> bool" where
  "popperContained w popperRect pos \<longleftrightarrow>
     8 \<le> snd pos \<and> snd pos + rwidth popperRect \<le> innerWidth w \<and>
     8 \<le> fst pos \<and> fst pos + rheight popperRect \<le> innerHeight w"

text \<open>Concrete inputs: an unscrolled 800 by 600 window, and the components' defaults.\<close>

definition window800x600 :: Window where
  "window800x600 = \<lparr>innerWidth = 800, innerHeight = 600, scrollX = 0, scrollY = 0\<rparr>"

definition viewportModifier :: PopperModifier where
  "viewportModifier = \<lparr>mname = ''preventOverflow'', mboundary = Some ''viewport''\<rparr>"

definition p3Props :: "PopperModifier list \<Rightarrow> PopperProps" where
  "p3Props ms =
     \<lparr>referenceElement = Some \<lparr>rtop = 580, rleft = 100, rwidth = 50, rheight = 20\<rparr>,
      children = ''content'', isOpen = True, placement = ''bottom'', modifiers = ms,
      usePortal = True, zIndex = 1000, className = [], offset = (0, 8), matchWidth = False\<rparr>"

definition popoverDefaults :: PopoverProps where
  "popoverDefaults =
     \<lparr>externalIsOpen = None, hasOnOpen = True, hasOnClose = True, position = ''bottom'',
      closeOnClickOutside = True, closeOnEsc = True, closeOnScroll = False,
      hasArrow = True, popoverOffset = 8, controlled = False\<rparr>"

definition popoverInitial :: PopoverState where
  "popoverInitial = \<lparr>internalIsOpen = False, onOpenCalls = 0, onCloseCalls = 0\<rparr>"

definition popoverOpened :: PopoverState where
  "popoverOpened = \<lparr>internalIsOpen = True, onOpenCalls = 1, onCloseCalls = 0\<rparr>"

definition popoverMounted :: PopoverInstance where
  "popoverMounted = \<lparr>rendered = popoverInitial, queued = []\<rparr>"

definition bodyElement :: Element where
  "bodyElement = \<lparr>el_id = 0, el_hasFocus = True\<rparr>"

definition triggerButton :: Element where
  "triggerButton = \<lparr>el_id = 1, el_hasFocus = True\<rparr>"

definition modalPanel :: Element where
  "modalPanel = \<lparr>el_id = 2, el_hasFocus = True\<rparr>"

text \<open>
  A page whose trigger button has the focus, with the Modal's panel mounted; and the same
  page after the Modal was opened and its panel removed again, which leaves the focus on
  the body.
\<close>

definition modalEnvInitial :: ModalEnv where
  "modalEnvInitial =
     \<lparr>documentActiveElement = Some triggerButton, attached = [0, 1, 2],
      previousActiveElement = None, modalRef = Some modalPanel, focusCalls = [],
      bodyOverflowHidden = False\<rparr>"

definition modalEnvPanelRemoved :: ModalEnv where
  "modalEnvPanelRemoved =
     (focusEffect True modalEnvInitial)
       \<lparr>documentActiveElement := Some bodyElement, attached := [0, 1], modalRef := None\<rparr>"

definition rangeSlider :: SliderProps where
  "rangeSlider =
     \<lparr>sl_min = 0, sl_max = 100, sl_step = 1, sl_value = None, sl_disabled = False,
      sl_range = True, hasOnChange = True\<rparr>"

definition rangeSliderState :: SliderState where
  "rangeSliderState = \<lparr>internalValue = RangePair 20 80, onChangeLog = []\<rparr>"

definition sliderTrack :: DOMRect where
  "sliderTrack = \<lparr>rtop = 0, rleft = 0, rwidth = 200, rheight = 4\<rparr>"

section \<open>Popper: position and placement\<close>

lemma preventOverflow_id:
  assumes "snd pos + rwidth popperRect \<le> innerWidth w" "8 \<le> snd pos"
    and "fst pos + rheight popperRect \<le> innerHeight w" "8 \<le> fst pos"
  shows "preventOverflow w popperRect pos = pos"
  using assms by (simp add: preventOverflow_def Let_def prod_eq_iff)

lemma applyModifiers_id:
  assumes "snd pos + rwidth popperRect \<le> innerWidth w" "8 \<le> snd pos"
    and "fst pos + rheight popperRect \<le> innerHeight w" "8 \<le> fst pos"
  shows "applyModifiers ms w popperRect pos = pos"
  using assms by (induction ms) (simp_all add: preventOverflow_id)

lemma placementUsed_render:
  "placementUsed (renderPopper css p st) = (if isOpen p then Some (placement p) else None)"
  by (simp add: placementUsed_def renderPopper_def popperContent_def)

lemma preventOverflow_coordinates:
  "fst (preventOverflow w popperRect pos)
     = (if fst pos + rheight popperRect > innerHeight w
        then max 8 (innerHeight w - rheight popperRect - 8) else max 8 (fst pos))"
  "snd (preventOverflow w popperRect pos)
     = (if snd pos + rwidth popperRect > innerWidth w
        then max 8 (innerWidth w - rwidth popperRect - 8) else max 8 (snd pos))"
  by (simp_all add: preventOverflow_def Let_def max_def)

text \<open>Running the branch a second time changes nothing, whatever the sizes.\<close>

lemma preventOverflow_idem:
  "preventOverflow w popperRect (preventOverflow w popperRect pos)
     = preventOverflow w popperRect pos"
  by (simp add: prod_eq_iff preventOverflow_coordinates max_def)

lemma applyModifiers_after_preventOverflow:
  "applyModifiers ms w popperRect (preventOverflow w popperRect pos)
     = preventOverflow w popperRect pos"
  by (induction ms) (simp_all add: preventOverflow_idem)

lemma applyModifiers_with_modifier:
  assumes "list_ex isPreventOverflow ms"
  shows "applyModifiers ms w popperRect pos = preventOverflow w popperRect pos"
  using assms
  by (induction ms arbitrary: pos) (auto simp add: applyModifiers_after_preventOverflow)

lemma applyModifiers_without_modifier:
  assumes "\<not> list_ex isPreventOverflow ms"
  shows "applyModifiers ms w popperRect pos = pos"
  using assms by (induction ms) simp_all

lemma positionEffect_styles:
  assumes "isOpen p" and "referenceElement p = Some refRect"
    and "popperElement = Some popperRect"
  shows "ps_top (positionEffect p popperElement w st)
           = fst (applyModifiers (modifiers p) w popperRect
                    (placementPosition (placement p) refRect popperRect (offset p))) + scrollY w"
    and "ps_left (positionEffect p popperElement w st)
           = snd (applyModifiers (modifiers p) w popperRect
                    (placementPosition (placement p) refRect popperRect (offset p))) + scrollX w"
  using assms by (simp_all add: positionEffect_def updatePosition_def Let_def)

text \<open>
  C1, counterexample. Anchor at top 580 with height 20 in an unscrolled 800 by 600 window,
  placement \<open>bottom\<close>, offset \<open>[0, 8]\<close>, content 120 by 100. The rendered element does
  not report \<open>top\<close>, with or without the \<open>preventOverflow\<close> modifier: with it the
  top coordinate is shifted to 492 (600 - 100 - 8), without it the top stays at 608. The
  \<open>top\<close> placement would have given 580 - 100 - 8 = 472.
\<close>

theorem popper_flip_counterexample:
  "placementUsed (renderPopper ''popper'' (p3Props [viewportModifier])
      (positionEffect (p3Props [viewportModifier])
         (Some \<lparr>rtop = 0, rleft = 0, rwidth = 120, rheight = 100\<rparr>)
         window800x600 initialPopperStyles)) \<noteq> Some ''top''
   \<and> placementUsed (renderPopper ''popper'' (p3Props [])
      (positionEffect (p3Props [])
         (Some \<lparr>rtop = 0, rleft = 0, rwidth = 120, rheight = 100\<rparr>)
         window800x600 initialPopperStyles)) \<noteq> Some ''top''
   \<and> map_option ps_top (updatePosition
         (Some \<lparr>rtop = 580, rleft = 100, rwidth = 50, rheight = 20\<rparr>)
         (Some \<lparr>rtop = 0, rleft = 0, rwidth = 120, rheight = 100\<rparr>)
         ''bottom'' (0, 8) [viewportModifier] False window800x600) = Some 492
   \<and> map_option ps_top (updatePosition
         (Some \<lparr>rtop = 580, rleft = 100, rwidth = 50, rheight = 20\<rparr>)
         (Some \<lparr>rtop = 0, rleft = 0, rwidth = 120, rheight = 100\<rparr>)
         ''bottom'' (0, 8) [] False window800x600) = Some 608"
  by (simp add: placementUsed_render p3Props_def updatePosition_def placementPosition_def
      preventOverflow_def isPreventOverflow_def viewportModifier_def window800x600_def
      rbottom_def rright_def Let_def)

text \<open>
  C1, as amended. The Popper never flips. For every open Popper with both elements
  present, whatever the anchor, the content, the window, the offset and the modifiers:
  the rendered element reports the requested placement unchanged, and the stored position
  comes from the formula of the requested placement. Without a \<open>preventOverflow\<close>
  modifier with boundary \<open>viewport\<close> in the list, the position is exactly what that
  formula gives plus the scroll offset, overflowing or not. With such a modifier anywhere
  in the list, each coordinate is shifted on the same side: a box that would end beyond
  the bottom (right) edge of the window gets top (left) \<open>max 8 (inner size - box size - 8)\<close>,
  any other box gets \<open>max 8\<close> of the computed coordinate, each plus the scroll offset.
\<close>

theorem popper_never_flips:
  assumes "isOpen p" and "referenceElement p = Some refRect"
    and "popperElement = Some popperRect"
  shows "placementUsed (renderPopper css p (positionEffect p popperElement w st))
           = Some (placement p)
       \<and> (\<not> list_ex isPreventOverflow (modifiers p) \<longrightarrow>
            ps_top (positionEffect p popperElement w st)
              = fst (placementPosition (placement p) refRect popperRect (offset p)) + scrollY w
          \<and> ps_left (positionEffect p popperElement w st)
              = snd (placementPosition (placement p) refRect popperRect (offset p)) + scrollX w)
       \<and> (list_ex isPreventOverflow (modifiers p) \<longrightarrow>
            ps_top (positionEffect p popperElement w st)
              = (if fst (placementPosition (placement p) refRect popperRect (offset p))
                      + rheight popperRect > innerHeight w
                 then max 8 (innerHeight w - rheight popperRect - 8)
                 else max 8 (fst (placementPosition (placement p) refRect popperRect (offset p))))
                + scrollY w
          \<and> ps_left (positionEffect p popperElement w st)
              = (if snd (placementPosition (placement p) refRect popperRect (offset p))
                      + rwidth popperRect > innerWidth w
                 then max 8 (innerWidth w - rwidth popperRect - 8)
                 else max 8 (snd (placementPosition (placement p) refRect popperRect (offset p))))
                + scrollX w)"
proof (intro conjI impI)
  show "placementUsed (renderPopper css p (positionEffect p popperElement w st))
           = Some (placement p)"
    using assms(1) by (simp add: placementUsed_render)
next
  assume none: "\<not> list_ex isPreventOverflow (modifiers p)"
  show "ps_top (positionEffect p popperElement w st)
          = fst (placementPosition (placement p) refRect popperRect (offset p)) + scrollY w"
    by (simp only: positionEffect_styles(1) [OF assms]
        applyModifiers_without_modifier [OF none])
  show "ps_left (positionEffect p popperElement w st)
          = snd (placementPosition (placement p) refRect popperRect (offset p)) + scrollX w"
    by (simp only: positionEffect_styles(2) [OF assms]
        applyModifiers_without_modifier [OF none])
next
  assume some: "list_ex isPreventOverflow (modifiers p)"
  show "ps_top (positionEffect p popperElement w st)
          = (if fst (placementPosition (placement p) refRect popperRect (offset p))
                  + rheight popperRect > innerHeight w
             then max 8 (innerHeight w - rheight popperRect - 8)
             else max 8 (fst (placementPosition (placement p) refRect popperRect (offset p))))
            + scrollY w"
    by (simp only: positionEffect_styles(1) [OF assms]
        applyModifiers_with_modifier [OF some] preventOverflow_coordinates(1))
  show "ps_left (positionEffect p popperElement w st)
          = (if snd (placementPosition (placement p) refRect popperRect (offset p))
                  + rwidth popperRect > innerWidth w
             then max 8 (innerWidth w - rwidth popperRect - 8)
             else max 8 (snd (placementPosition (placement p) refRect popperRect (offset p))))
            + scrollX w"
    by (simp only: positionEffect_styles(2) [OF assms]
        applyModifiers_with_modifier [OF some] preventOverflow_coordinates(2))
qed

text \<open>
  C1, witness: the amended theorem at the input of the counterexample, once with the
  modifier and once without. The hypotheses hold there; the reported placement is
  \<open>bottom\<close> both times, the top is 492 with the modifier and 608 without, the left is
  65 both times.
\<close>

theorem popper_never_flips_witness:
  "isOpen (p3Props [viewportModifier])
   \<and> list_ex isPreventOverflow (modifiers (p3Props [viewportModifier]))
   \<and> \<not> list_ex isPreventOverflow (modifiers (p3Props []))
   \<and> placementUsed (renderPopper ''popper'' (p3Props [viewportModifier])
        (positionEffect (p3Props [viewportModifier])
           (Some \<lparr>rtop = 0, rleft = 0, rwidth = 120, rheight = 100\<rparr>)
           window800x600 initialPopperStyles)) = Some ''bottom''
   \<and> ps_top (positionEffect (p3Props [viewportModifier])
         (Some \<lparr>rtop = 0, rleft = 0, rwidth = 120, rheight = 100\<rparr>)
         window800x600 initialPopperStyles) = 492
   \<and> ps_left (positionEffect (p3Props [viewportModifier])
         (Some \<lparr>rtop = 0, rleft = 0, rwidth = 120, rheight = 100\<rparr>)
         window800x600 initialPopperStyles) = 65
   \<and> placementUsed (renderPopper ''popper'' (p3Props [])
        (positionEffect (p3Props [])
           (Some \<lparr>rtop = 0, rleft = 0, rwidth = 120, rheight = 100\<rparr>)
           window800x600 initialPopperStyles)) = Some ''bottom''
   \<and> ps_top (positionEffect (p3Props [])
         (Some \<lparr>rtop = 0, rleft = 0, rwidth = 120, rheight = 100\<rparr>)
         window800x600 initialPopperStyles) = 608
   \<and> ps_left (positionEffect (p3Props [])
         (Some \<lparr>rtop = 0, rleft = 0, rwidth = 120, rheight = 100\<rparr>)
         window800x600 initialPopperStyles) = 65"
  using popper_never_flips [of "p3Props [viewportModifier]"
      "\<lparr>rtop = 580, rleft = 100, rwidth = 50, rheight = 20\<rparr>"
      "Some \<lparr>rtop = 0, rleft = 0, rwidth = 120, rheight = 100\<rparr>"
      "\<lparr>rtop = 0, rleft = 0, rwidth = 120, rheight = 100\<rparr>"
      "''popper''" window800x600 initialPopperStyles]
    popper_never_flips [of "p3Props []"
      "\<lparr>rtop = 580, rleft = 100, rwidth = 50, rheight = 20\<rparr>"
      "Some \<lparr>rtop = 0, rleft = 0, rwidth = 120, rheight = 100\<rparr>"
      "\<lparr>rtop = 0, rleft = 0, rwidth = 120, rheight = 100\<rparr>"
      "''popper''" window800x600 initialPopperStyles]
  by (simp add: p3Props_def isPreventOverflow_def viewportModifier_def window800x600_def
      placementPosition_def rbottom_def Let_def)

text \<open>
  C3. Anchor \<open>{top:100, left:100, width:50, height:20}\<close>, content 120 by 40, placement
  \<open>bottom-start\<close>, offset \<open>[0, 8]\<close>, an 800 by 600 window that is not scrolled: the
  computed position is top 128, left 100, whatever modifiers are supplied and wherever
  the content was measured, and the rendered element reports \<open>bottom-start\<close>.
\<close>

theorem popper_scenario_bottom_start:
  "updatePosition
     (Some \<lparr>rtop = 100, rleft = 100, rwidth = 50, rheight = 20\<rparr>)
     (Some \<lparr>rtop = ct, rleft = cl, rwidth = 120, rheight = 40\<rparr>)
     ''bottom-start'' (0, 8) ms mw
     \<lparr>innerWidth = 800, innerHeight = 600, scrollX = 0, scrollY = 0\<rparr>
   = Some \<lparr>ps_position = ''absolute'', ps_top = 128, ps_left = 100,
            ps_transform = ''translate3d(0, 0, 0)'',
            ps_width = (if mw then Some 50 else None)\<rparr>
   \<and> placementUsed (renderPopper css
        \<lparr>referenceElement = Some \<lparr>rtop = 100, rleft = 100, rwidth = 50, rheight = 20\<rparr>,
         children = kids, isOpen = True, placement = ''bottom-start'', modifiers = ms,
         usePortal = up, zIndex = z, className = cn, offset = (0, 8), matchWidth = mw\<rparr> st)
     = Some ''bottom-start''"
proof -
  let ?popperRect = "\<lparr>rtop = ct, rleft = cl, rwidth = 120, rheight = 40\<rparr>"
  let ?w = "\<lparr>innerWidth = 800, innerHeight = 600, scrollX = 0, scrollY = 0\<rparr>"
  have base: "placementPosition ''bottom-start''
                \<lparr>rtop = 100, rleft = 100, rwidth = 50, rheight = 20\<rparr> ?popperRect (0, 8)
              = (128, 100)"
    by (simp add: placementPosition_def rbottom_def)
  have "applyModifiers ms ?w ?popperRect (128, 100) = (128, 100)"
    by (rule applyModifiers_id) simp_all
  with base show ?thesis
    by (simp add: updatePosition_def renderPopper_def popperContent_def placementUsed_def)
qed

section \<open>Containment in the viewport\<close>

lemma keepInViewport_contained:
  assumes "fitsWithin 10 w contentRect"
  shows "containedIn 10 w contentRect (keepInViewport w contentRect pos)"
  using assms by (auto simp add: fitsWithin_def containedIn_def keepInViewport_def Let_def)

lemma preventOverflow_contained:
  assumes "fitsWithin 8 w popperRect"
  shows "popperContained w popperRect (preventOverflow w popperRect pos)"
  using assms by (auto simp add: fitsWithin_def popperContained_def preventOverflow_def Let_def)

lemma preventOverflow_keeps:
  assumes "popperContained w popperRect pos"
  shows "preventOverflow w popperRect pos = pos"
  using assms by (intro preventOverflow_id) (simp_all add: popperContained_def)

lemma applyModifiers_keeps:
  assumes "popperContained w popperRect pos"
  shows "applyModifiers ms w popperRect pos = pos"
  using assms by (induction ms) (simp_all add: preventOverflow_keeps)

text \<open>
  Once one matching modifier has run, the box is inside, and every later modifier leaves
  it where it is.
\<close>

lemma applyModifiers_contained:
  assumes "fitsWithin 8 w popperRect" and "list_ex isPreventOverflow ms"
  shows "popperContained w popperRect (applyModifiers ms w popperRect pos)"
  using assms
proof (induction ms arbitrary: pos)
  case Nil
  then show ?case by simp
next
  case (Cons m ms)
  show ?case
  proof (cases "isPreventOverflow m")
    case True
    have "popperContained w popperRect (preventOverflow w popperRect pos)"
      using Cons.prems(1) by (rule preventOverflow_contained)
    then show ?thesis
      using True by (simp add: applyModifiers_keeps)
  next
    case False
    with Cons show ?thesis by simp
  qed
qed

text \<open>
  With the modifier, a box that ends within 8 pixels of the right edge is left in place:
  the branch compares against the viewport edge itself.
\<close>

lemma preventOverflow_near_edge_example:
  "preventOverflow window800x600 \<lparr>rtop = 0, rleft = 0, rwidth = 120, rheight = 40\<rparr> (128, 675)
     = (128, 675)"
  by (simp add: preventOverflow_def window800x600_def Let_def)

text \<open>
  C4, counterexample. A Popper with its default (empty) modifier list, anchor
  \<open>{top:100, left:750, width:50, height:20}\<close>, content 120 by 40, placement
  \<open>bottom-start\<close>, in an unscrolled 800 by 600 window: the content fits within the
  bounds padded by 8, the computed position is top 128, left 750, and the box (right edge
  870) is not within the padded bounds.
\<close>

theorem containment_counterexample:
  "fitsWithin 8 window800x600 \<lparr>rtop = 0, rleft = 0, rwidth = 120, rheight = 40\<rparr>
   \<and> updatePosition
        (Some \<lparr>rtop = 100, rleft = 750, rwidth = 50, rheight = 20\<rparr>)
        (Some \<lparr>rtop = 0, rleft = 0, rwidth = 120, rheight = 40\<rparr>)
        ''bottom-start'' (0, 8) [] False window800x600
      = Some \<lparr>ps_position = ''absolute'', ps_top = 128, ps_left = 750,
               ps_transform = ''translate3d(0, 0, 0)'', ps_width = None\<rparr>
   \<and> \<not> containedIn 8 window800x600 \<lparr>rtop = 0, rleft = 0, rwidth = 120, rheight = 40\<rparr>
        (128, 750)"
  by (simp add: fitsWithin_def containedIn_def updatePosition_def placementPosition_def
      window800x600_def rbottom_def Let_def)

text \<open>
  C4, as amended. The Popover keeps a content box that fits within the viewport padded
  by 10 inside those padded bounds, for every trigger, placement and offset. The Popper
  clamps only when its modifier list holds a \<open>preventOverflow\<close> modifier with boundary
  \<open>viewport\<close>; then a content box that fits within the viewport padded by 8 ends up,
  in viewport coordinates (before the scroll offset is added), with its top and left at
  least 8 and its bottom and right edges inside the viewport.
\<close>

theorem containment_where_clamped:
  "(fitsWithin 10 w contentRect \<longrightarrow>
      popoverUpdatePosition p True (Some triggerRect) (Some contentRect) w = Some pos \<longrightarrow>
      containedIn 10 w contentRect pos)
   \<and> (fitsWithin 8 w contentRect \<longrightarrow> list_ex isPreventOverflow ms \<longrightarrow>
      updatePosition (Some refRect) (Some contentRect) pl off ms mw w = Some st \<longrightarrow>
      popperContained w contentRect (ps_top st - scrollY w, ps_left st - scrollX w))"
proof (intro conjI impI)
  assume "fitsWithin 10 w contentRect"
    and "popoverUpdatePosition p True (Some triggerRect) (Some contentRect) w = Some pos"
  then show "containedIn 10 w contentRect pos"
    by (auto simp add: popoverUpdatePosition_def keepInViewport_contained)
next
  assume fit: "fitsWithin 8 w contentRect" and ex: "list_ex isPreventOverflow ms"
    and up: "updatePosition (Some refRect) (Some contentRect) pl off ms mw w = Some st"
  let ?pos = "applyModifiers ms w contentRect (placementPosition pl refRect contentRect off)"
  have "popperContained w contentRect ?pos"
    using fit ex by (rule applyModifiers_contained)
  moreover have "ps_top st = fst ?pos + scrollY w" "ps_left st = snd ?pos + scrollX w"
    using up by (auto simp add: updatePosition_def Let_def)
  ultimately show "popperContained w contentRect (ps_top st - scrollY w, ps_left st - scrollX w)"
    by simp
qed

text \<open>
  C4, witness: the anchor of the counterexample. The Popover moves the box to left 670,
  the Popper with the modifier to left 672.
\<close>

theorem containment_where_clamped_witness:
  "fitsWithin 10 window800x600 \<lparr>rtop = 0, rleft = 0, rwidth = 120, rheight = 40\<rparr>
   \<and> popoverUpdatePosition (popoverDefaults\<lparr>position := ''bottom-start''\<rparr>) True
        (Some \<lparr>rtop = 100, rleft = 750, rwidth = 50, rheight = 20\<rparr>)
        (Some \<lparr>rtop = 0, rleft = 0, rwidth = 120, rheight = 40\<rparr>) window800x600
      = Some (128, 670)
   \<and> containedIn 10 window800x600 \<lparr>rtop = 0, rleft = 0, rwidth = 120, rheight = 40\<rparr> (128, 670)
   \<and> list_ex isPreventOverflow [viewportModifier]
   \<and> map_option ps_left (updatePosition
        (Some \<lparr>rtop = 100, rleft = 750, rwidth = 50, rheight = 20\<rparr>)
        (Some \<lparr>rtop = 0, rleft = 0, rwidth = 120, rheight = 40\<rparr>)
        ''bottom-start'' (0, 8) [viewportModifier] False window800x600) = Some 672
   \<and> popperContained window800x600 \<lparr>rtop = 0, rleft = 0, rwidth = 120, rheight = 40\<rparr>
        (128, 672)"
  using containment_where_clamped [of window800x600
      "\<lparr>rtop = 0, rleft = 0, rwidth = 120, rheight = 40\<rparr>"
      "popoverDefaults\<lparr>position := ''bottom-start''\<rparr>"
      "\<lparr>rtop = 100, rleft = 750, rwidth = 50, rheight = 20\<rparr>" "(128, 670)"
      "[viewportModifier]" "\<lparr>rtop = 100, rleft = 750, rwidth = 50, rheight = 20\<rparr>"
      "''bottom-start''" "(0, 8)" False
      "\<lparr>ps_position = ''absolute'', ps_top = 128, ps_left = 672,
        ps_transform = ''translate3d(0, 0, 0)'', ps_width = None\<rparr>"]
  by (simp add: fitsWithin_def popoverUpdatePosition_def keepInViewport_def popoverPosition_def
      popoverDefaults_def updatePosition_def placementPosition_def preventOverflow_def
      isPreventOverflow_def viewportModifier_def window800x600_def rbottom_def rright_def Let_def)

section \<open>Unknown placements\<close>

lemma placementPosition_default:
  assumes "pl \<notin> set validPlacements"
  shows "placementPosition pl refRect popperRect off
           = placementPosition ''bottom-start'' refRect popperRect off"
  using assms by (simp add: validPlacements_def placementPosition_def)

lemma popoverPosition_default:
  assumes "pl \<notin> set validPlacements"
  shows "popoverPosition pl triggerRect contentRect off
           = popoverPosition ''bottom'' triggerRect contentRect off"
  using assms by (simp add: validPlacements_def popoverPosition_def)

text \<open>
  C7, counterexample. The placement \<open>diagonal\<close> is none of the twelve; the Popper
  computes a position for it all the same (that of \<open>bottom-start\<close>: top 128, left 100),
  and so does the Popover (that of \<open>bottom\<close>: top 128, left 65). Neither fails.
\<close>

theorem unknown_placement_counterexample:
  "''diagonal'' \<notin> set validPlacements
   \<and> updatePosition
        (Some \<lparr>rtop = 100, rleft = 100, rwidth = 50, rheight = 20\<rparr>)
        (Some \<lparr>rtop = 0, rleft = 0, rwidth = 120, rheight = 40\<rparr>)
        ''diagonal'' (0, 8) [] False window800x600
      = Some \<lparr>ps_position = ''absolute'', ps_top = 128, ps_left = 100,
               ps_transform = ''translate3d(0, 0, 0)'', ps_width = None\<rparr>
   \<and> popoverUpdatePosition (popoverDefaults\<lparr>position := ''diagonal''\<rparr>) True
        (Some \<lparr>rtop = 100, rleft = 100, rwidth = 50, rheight = 20\<rparr>)
        (Some \<lparr>rtop = 0, rleft = 0, rwidth = 120, rheight = 40\<rparr>) window800x600
      = Some (128, 65)"
  by (simp add: validPlacements_def updatePosition_def placementPosition_def
      popoverUpdatePosition_def popoverPosition_def keepInViewport_def popoverDefaults_def
      window800x600_def rbottom_def Let_def)

text \<open>
  C7, as amended. For every placement value outside the twelve, positioning does not
  fail: the Popper computes exactly what it computes for \<open>bottom-start\<close>, the Popover
  exactly what it computes for \<open>bottom\<close>, and with both elements present each yields a
  position.
\<close>

theorem unknown_placement_defaults:
  assumes "pl \<notin> set validPlacements"
  shows "updatePosition re pe pl off ms mw w = updatePosition re pe ''bottom-start'' off ms mw w
       \<and> updatePosition (Some refRect) (Some popperRect) pl off ms mw w \<noteq> None
       \<and> popoverUpdatePosition (p\<lparr>position := pl\<rparr>) opened te ce w
           = popoverUpdatePosition (p\<lparr>position := ''bottom''\<rparr>) opened te ce w
       \<and> popoverUpdatePosition (p\<lparr>position := pl\<rparr>) True (Some triggerRect) (Some contentRect) w
           \<noteq> None"
proof (intro conjI)
  show "updatePosition re pe pl off ms mw w = updatePosition re pe ''bottom-start'' off ms mw w"
    using assms
    by (simp add: updatePosition_def placementPosition_default split: option.splits)
  show "updatePosition (Some refRect) (Some popperRect) pl off ms mw w \<noteq> None"
    by (simp add: updatePosition_def Let_def)
  show "popoverUpdatePosition (p\<lparr>position := pl\<rparr>) opened te ce w
           = popoverUpdatePosition (p\<lparr>position := ''bottom''\<rparr>) opened te ce w"
    using assms
    by (simp add: popoverUpdatePosition_def popoverPosition_default split: option.splits)
  show "popoverUpdatePosition (p\<lparr>position := pl\<rparr>) True (Some triggerRect) (Some contentRect) w
           \<noteq> None"
    by (simp add: popoverUpdatePosition_def)
qed

text \<open>C7, witness: the placement \<open>sideways\<close>.\<close>

theorem unknown_placement_defaults_witness:
  "''sideways'' \<notin> set validPlacements
   \<and> updatePosition
        (Some \<lparr>rtop = 100, rleft = 100, rwidth = 50, rheight = 20\<rparr>)
        (Some \<lparr>rtop = 0, rleft = 0, rwidth = 120, rheight = 40\<rparr>)
        ''sideways'' (0, 8) [] False window800x600
     = updatePosition
        (Some \<lparr>rtop = 100, rleft = 100, rwidth = 50, rheight = 20\<rparr>)
        (Some \<lparr>rtop = 0, rleft = 0, rwidth = 120, rheight = 40\<rparr>)
        ''bottom-start'' (0, 8) [] False window800x600"
  using unknown_placement_defaults [of "''sideways''"
        "Some \<lparr>rtop = 100, rleft = 100, rwidth = 50, rheight = 20\<rparr>"
        "Some \<lparr>rtop = 0, rleft = 0, rwidth = 120, rheight = 40\<rparr>" "(0, 8)" "[]" False
        window800x600]
  by (simp add: validPlacements_def)

section \<open>What the Popper renders\<close>

text \<open>
  C9. The rendered Popper does not depend on the computed position: rendering after the
  positioning effect has stored new styles gives the same output as rendering with any
  other styles; changing the reference element, the modifiers, the z-index, the offset or
  \<open>matchWidth\<close> changes nothing either (the output varies with \<open>isOpen\<close>,
  \<open>usePortal\<close>, the class name, the placement and the children only); and the rendered
  element carries no inline style.
\<close>

theorem popper_render_ignores_position:
  "renderPopper css p (positionEffect p popperElement w st) = renderPopper css p st'
   \<and> renderPopper css
        (p\<lparr>referenceElement := re, modifiers := ms, zIndex := z, offset := off,
           matchWidth := mw\<rparr>) st
      = renderPopper css p st'
   \<and> map_option div_style (popperContent css p st) = (if isOpen p then Some None else None)"
  by (simp add: renderPopper_def popperContent_def)

section \<open>Listener cleanup\<close>

lemma registerEvents_snd:
  "snd (registerEvents events h (ls, reg)) = reg"
  by (induction events arbitrary: ls) simp_all

text \<open>
  Whatever the events, the cleanup of an enabled ClickAwayListener removes nothing: the
  listeners after mount and unmount are those the effect attached.
\<close>

lemma clickAway_never_removes:
  "clickAwayMountUnmount False events h ls = fst (registerEvents events h (ls, []))"
  by (simp add: clickAwayMountUnmount_def clickAwayEffect_def Let_def registerEvents_snd)

text \<open>
  The Popover's effect and cleanup are a matching pair: opening and closing leaves the
  listeners as they were, when none of the render's four handlers was attached before.
\<close>

lemma popover_cleanup_complete:
  assumes "(WindowTarget, ''resize'', h_updatePosition hs) \<notin> set ls"
    and "(WindowTarget, ''scroll'', h_handleClose hs) \<notin> set ls"
    and "(DocumentTarget, ''mousedown'', h_handleClickOutside hs) \<notin> set ls"
    and "(DocumentTarget, ''keydown'', h_handleEscKey hs) \<notin> set ls"
  shows "popoverOpenClose p hs ls = ls"
  using assms
  by (simp add: popoverOpenClose_def popoverEffect_def popoverCleanup_def addEventListener_def
      removeEventListener_def Let_def remove1_append remove1_idem)

text \<open>
  C2. An enabled ClickAwayListener with the default events \<open>mousedown\<close> and
  \<open>touchstart\<close>, mounted on a document without listeners and unmounted again, leaves
  both of its listeners attached to the document: two remain, not zero.
\<close>

theorem clickAway_listeners_remain:
  "clickAwayMountUnmount False [''mousedown'', ''touchstart''] 0 []
     = [(DocumentTarget, ''mousedown'', 0), (DocumentTarget, ''touchstart'', 0)]"
  by (simp add: clickAwayMountUnmount_def clickAwayEffect_def addEventListener_def Let_def)

section \<open>Closing a Popover\<close>

text \<open>
  C5, counterexample. An uncontrolled, open Popover with an \<open>onClose\<close> callback: the
  state after two calls of \<open>handleClose\<close> differs from the state after one, because the
  second call has notified \<open>onClose\<close> a second time.
\<close>

theorem close_twice_counterexample:
  "handleClose popoverDefaults (handleClose popoverDefaults popoverOpened)
     \<noteq> handleClose popoverDefaults popoverOpened
   \<and> onCloseCalls (handleClose popoverDefaults popoverOpened) = 1
   \<and> onCloseCalls (handleClose popoverDefaults (handleClose popoverDefaults popoverOpened)) = 2"
  by (simp add: handleClose_def callOnClose_def popoverDefaults_def popoverOpened_def)

text \<open>
  C5, as amended. \<open>handleClose\<close> is idempotent on the open flag only: a second call
  leaves \<open>internalIsOpen\<close> (and the instance's \<open>isOpen\<close>) as the first call left it
  and never calls \<open>onOpen\<close>, but every call, the second one and one on an already closed
  instance included, invokes \<open>onClose\<close> once when the callback is supplied.
\<close>

theorem close_idempotent_on_flag_only:
  "internalIsOpen (handleClose p (handleClose p s)) = internalIsOpen (handleClose p s)
   \<and> popoverIsOpen p (handleClose p (handleClose p s)) = popoverIsOpen p (handleClose p s)
   \<and> onOpenCalls (handleClose p (handleClose p s)) = onOpenCalls (handleClose p s)
   \<and> onCloseCalls (handleClose p (handleClose p s))
       = onCloseCalls (handleClose p s) + (if hasOnClose p then 1 else 0)
   \<and> onCloseCalls (handleClose p s) = onCloseCalls s + (if hasOnClose p then 1 else 0)"
  by (simp add: handleClose_def callOnClose_def popoverIsOpen_def)

section \<open>Lifecycle of a Popover\<close>

text \<open>
  The handlers and the list of queued updates agree: the flag a handler returns is the
  last update it queues, or the captured flag when it queues none.
\<close>

lemma popoverStep_setStateCalls:
  "internalIsOpen (popoverStep p c s) = last (internalIsOpen s # setStateCalls p c s)"
  by (cases c)
     (simp_all add: popoverStep_def setStateCalls_def handleToggle_def handleClose_def
        callOnOpen_def callOnClose_def Let_def)


text \<open>A call never changes what is rendered; only a render does.\<close>

lemma instCall_keeps_rendered_flag:
  "internalIsOpen (rendered (instCall p c inst)) = internalIsOpen (rendered inst)"
  by (simp add: instCall_def)

text \<open>
  Two toggles before a render: both read the flag of the same render, both notify
  \<open>onOpen\<close>, and the next render shows the Popover open.
\<close>

lemma two_toggles_one_render:
  "rendered (instRender (instCall popoverDefaults CallToggle
      (instCall popoverDefaults CallToggle popoverMounted)))
     = \<lparr>internalIsOpen = True, onOpenCalls = 2, onCloseCalls = 0\<rparr>"
  by (simp add: instRender_def instCall_def popoverStep_def setStateCalls_def handleToggle_def
      callOnOpen_def popoverDefaults_def popoverMounted_def popoverInitial_def Let_def)





section \<open>Focus on closing a Modal\<close>

text \<open>
  C8, counterexample. A Modal opened while the trigger button had the focus, then closed
  (its panel removed, the focus on the body): the close gives the focus back to the
  button, and after it the snapshot ref still holds the button; it has not been set to
  none.
\<close>

theorem focus_snapshot_counterexample:
  "documentActiveElement (focusEffect False modalEnvPanelRemoved) = Some triggerButton
   \<and> previousActiveElement (focusEffect False modalEnvPanelRemoved) = Some triggerButton
   \<and> previousActiveElement (focusEffect False modalEnvPanelRemoved) \<noteq> None"
  by (simp add: focusEffect_def callFocus_def modalEnvPanelRemoved_def modalEnvInitial_def
      triggerButton_def modalPanel_def Let_def)

text \<open>
  C8, as amended. On every close the focus is restored to the snapshot element only if
  that element is still attached to the document (and has a \<open>focus\<close> property);
  otherwise the focus is left where it is. The snapshot is not cleared after the
  restoration: the ref keeps it over the close. The one ref holds at most one snapshot,
  and each open overwrites it with the element that has the focus at that moment.
\<close>

theorem focus_restored_snapshot_kept:
  "documentActiveElement (focusEffect False env)
     = (case previousActiveElement env of
          None \<Rightarrow> documentActiveElement env
        | Some e \<Rightarrow> if el_hasFocus e \<and> el_id e \<in> set (attached env)
                    then Some e else documentActiveElement env)
   \<and> previousActiveElement (focusEffect False env) = previousActiveElement env
   \<and> previousActiveElement (focusEffect True env) = documentActiveElement env"
  by (simp add: focusEffect_def callFocus_def Let_def split: option.splits)

text \<open>
  The two cases of the restoration at a concrete page: with the button still attached the
  focus returns to it; with the button removed meanwhile the focus stays on the body.
\<close>

lemma focus_restore_examples:
  "documentActiveElement (focusEffect False modalEnvPanelRemoved) = Some triggerButton"
  "documentActiveElement (focusEffect False (modalEnvPanelRemoved\<lparr>attached := [0]\<rparr>))
     = Some bodyElement"
  by (simp_all add: focusEffect_def callFocus_def modalEnvPanelRemoved_def modalEnvInitial_def
      triggerButton_def modalPanel_def bodyElement_def Let_def)

section \<open>Track clicks on a range Slider\<close>

lemma commitValue_effect:
  "internalValue (commitValue p v s) = (if isControlled p then internalValue s else v)
   \<and> onChangeLog (commitValue p v s)
       = (if hasOnChange p then onChangeLog s @ [v] else onChangeLog s)"
  by (simp add: commitValue_def Let_def)

lemma single_track_click_commits:
  assumes "\<not> sl_disabled q" and "\<not> sl_range q \<or> (\<exists>v. internalValue t = Single v)"
  shows "handleTrackClick q (Some rect) clientX t
           = commitValue q
               (Single (getValueFromPercentage q (((clientX - rleft rect) / rwidth rect) * 100))) t"
  using assms
  by (cases "internalValue t") (auto simp add: handleTrackClick_def Let_def split: bool.splits)

text \<open>
  C10. On a range slider holding a pair, a click on the track returns the state as it
  was, value and \<open>onChange\<close> log alike, wherever the click lands and whether or not the
  slider is disabled, controlled or mounted. Committing is left to the other paths: on
  the same slider a drag of the minimum or the maximum thumb commits the updated pair,
  and a track click on an enabled slider that is not in range mode, or holds a single
  number, commits the clicked value (the track has a width and the step is not zero, so
  that the divisions are defined).
\<close>

theorem range_track_click_no_commit:
  assumes "sl_range p" and "internalValue s = RangePair minVal maxVal"
  shows "handleTrackClick p trackRef clientX s = s
       \<and> (rwidth rect \<noteq> 0 \<longrightarrow> sl_step p \<noteq> 0 \<longrightarrow>
          handleDrag p ThumbMin (Some rect) clientX s
           = commitValue p
               (RangePair (min (getValueFromPercentage p
                             (max 0 (min 100 (((clientX - rleft rect) / rwidth rect) * 100))))
                          maxVal) maxVal) s
          \<and> handleDrag p ThumbMax (Some rect) clientX s
           = commitValue p
               (RangePair minVal
                  (max (getValueFromPercentage p
                          (max 0 (min 100 (((clientX - rleft rect) / rwidth rect) * 100))))
                       minVal)) s)
       \<and> (rwidth rect \<noteq> 0 \<longrightarrow> sl_step q \<noteq> 0 \<longrightarrow> \<not> sl_disabled q \<longrightarrow>
          \<not> sl_range q \<or> (\<exists>v. internalValue t = Single v) \<longrightarrow>
          handleTrackClick q (Some rect) clientX t
           = commitValue q
               (Single (getValueFromPercentage q (((clientX - rleft rect) / rwidth rect) * 100))) t)"
proof (intro conjI impI)
  show "handleTrackClick p trackRef clientX s = s"
    using assms by (simp add: handleTrackClick_def Let_def split: option.splits)
  show "handleDrag p ThumbMin (Some rect) clientX s
           = commitValue p
               (RangePair (min (getValueFromPercentage p
                             (max 0 (min 100 (((clientX - rleft rect) / rwidth rect) * 100))))
                          maxVal) maxVal) s"
    using assms by (simp add: handleDrag_def Let_def)
  show "handleDrag p ThumbMax (Some rect) clientX s
           = commitValue p
               (RangePair minVal
                  (max (getValueFromPercentage p
                          (max 0 (min 100 (((clientX - rleft rect) / rwidth rect) * 100))))
                       minVal)) s"
    using assms by (simp add: handleDrag_def Let_def)
next
  assume "\<not> sl_disabled q" and "\<not> sl_range q \<or> (\<exists>v. internalValue t = Single v)"
  then show "handleTrackClick q (Some rect) clientX t
           = commitValue q
               (Single (getValueFromPercentage q (((clientX - rleft rect) / rwidth rect) * 100))) t"
    by (rule single_track_click_commits)
qed

text \<open>
  C10, witness: a range slider from 0 to 100 holding \<open>[20, 80]\<close>, track 200 wide, pointer
  at 100. The track click changes nothing; dragging the minimum thumb there commits
  \<open>[50, 80]\<close>; the same click with range mode off commits 50.
\<close>

theorem range_track_click_no_commit_witness:
  "sl_range rangeSlider \<and> internalValue rangeSliderState = RangePair 20 80
   \<and> handleTrackClick rangeSlider (Some sliderTrack) 100 rangeSliderState = rangeSliderState
   \<and> handleDrag rangeSlider ThumbMin (Some sliderTrack) 100 rangeSliderState
       = \<lparr>internalValue = RangePair 50 80, onChangeLog = [RangePair 50 80]\<rparr>
   \<and> handleTrackClick (rangeSlider\<lparr>sl_range := False\<rparr>) (Some sliderTrack) 100 rangeSliderState
       = \<lparr>internalValue = Single 50, onChangeLog = [Single 50]\<rparr>"
  using range_track_click_no_commit [of rangeSlider rangeSliderState 20 80
      "Some sliderTrack" 100 sliderTrack "rangeSlider\<lparr>sl_range := False\<rparr>" rangeSliderState]
  by (simp add: rangeSlider_def rangeSliderState_def sliderTrack_def commitValue_def
      isControlled_def getValueFromPercentage_def mathRound_def Let_def)

end
